theory Spec2Isabelle
  imports Complex_Main "HOL-Library.Monad_Syntax"
begin

section \<open>The bouncing-logo screensaver (DVDScreensaver.jsx)\<close>

text \<open>
  JavaScript numbers are modelled as real numbers. The two operations of the source
  whose result is not a real number on part of their domain (a division by zero,
  an inverse cosine outside \<open>[-1, 1]\<close>) return \<open>None\<close> there, which stands for
  the non-finite value (NaN, an infinity) that JavaScript produces. Rounding of
  IEEE doubles is left out, except in the last part of the definitions, which redoes
  the angle computation with every operation rounded.
\<close>

subsection \<open>Constants\<close>

definition SPEED :: real where
  "SPEED = 0.75"

definition LOGO_WIDTH :: real where
  "LOGO_WIDTH = 200"

definition LOGO_ASPECT_RATIO :: real where
  "LOGO_ASPECT_RATIO = 744 / 300"

definition LOGO_HEIGHT :: real where
  "LOGO_HEIGHT = LOGO_WIDTH / LOGO_ASPECT_RATIO"

definition CORNER_THRESHOLD :: real where
  "CORNER_THRESHOLD = 6"

subsection \<open>Partial arithmetic\<close>

definition js_div :: "real \<Rightarrow> real \<Rightarrow> real option" where
  "js_div p q = (if q = 0 then None else Some (p / q))"

definition Math_acos :: "real \<Rightarrow> real option" where
  "Math_acos d = (if - 1 \<le> d \<and> d \<le> 1 then Some (arccos d) else None)"

definition Math_hypot :: "real \<Rightarrow> real \<Rightarrow> real" where
  "Math_hypot p q = sqrt (p * p + q * q)"

subsection \<open>Utilities\<close>

record point =
  px :: real
  py :: real

definition clamp :: "real \<Rightarrow> real \<Rightarrow> real \<Rightarrow> real" where
  "clamp v lo hi = max lo (min hi v)"

definition length_vec :: "real \<Rightarrow> real \<Rightarrow> real" where
  "length_vec p q = Math_hypot p q"

definition normalize_vec :: "real \<Rightarrow> real \<Rightarrow> point option" where
  "normalize_vec p q =
     (let m = length_vec p q in
      if m = 0 then Some \<lparr>px = 0, py = 0\<rparr>
      else do {
        nx \<leftarrow> js_div p m;
        ny \<leftarrow> js_div q m;
        Some \<lparr>px = nx, py = ny\<rparr>
      })"

definition dot :: "real \<Rightarrow> real \<Rightarrow> real \<Rightarrow> real \<Rightarrow> real" where
  "dot ax ay bx by = ax * bx + ay * by"

definition angleBetween :: "real \<Rightarrow> real \<Rightarrow> real \<Rightarrow> real \<Rightarrow> real option" where
  "angleBetween ax ay bx by =
     do {
       a \<leftarrow> normalize_vec ax ay;
       b \<leftarrow> normalize_vec bx by;
       let d = clamp (dot (px a) (py a) (px b) (py b)) (- 1) 1;
       Math_acos d
     }"

subsection \<open>The component's state and one animation frame\<close>

record containerSize =
  width :: real
  height :: real

record sim =
  pos :: point
  dir :: point
  lastBounceTime :: real

text \<open>The arguments of one call of the particle effect.\<close>

record confetti =
  particleCount :: nat
  spread :: nat
  origin_x :: "real option"
  origin_y :: "real option"

text \<open>
  The values the debug overlay is drawn from. The three shapes pushed on \<open>dbg\<close>
  (two lines and the text label) are built from these values and are not modelled.
\<close>

record diagnostic =
  sourceLogo :: point
  targetScreen :: point
  angle :: "real option"
  aDeg :: "real option"
  inCone :: bool

record frame =
  sim_after :: sim
  bounced :: bool
  bursts :: "confetti list"
  diag :: diagnostic

definition init_sim :: sim where
  "init_sim = \<lparr>pos = \<lparr>px = 150, py = 150\<rparr>, dir = \<lparr>px = 1, py = 1\<rparr>, lastBounceTime = 0\<rparr>"

text \<open>Lines 99 to 127: the move and the rebounds on the four edges.\<close>

definition animate_move :: "real \<Rightarrow> real \<Rightarrow> point \<Rightarrow> point \<Rightarrow> point \<times> point \<times> bool" where
  "animate_move maxX maxY p d =
     (let x = px p + px d * SPEED;
          y = py p + py d * SPEED;
          (x, dx, bounced) =
            (if x \<le> 0 then (0, px d * - 1, True)
             else if x \<ge> maxX then (maxX, px d * - 1, True)
             else (x, px d, False));
          (y, dy, bounced) =
            (if y \<le> 0 then (0, py d * - 1, True)
             else if y \<ge> maxY then (maxY, py d * - 1, True)
             else (y, py d, bounced))
      in (\<lparr>px = x, py = y\<rparr>, \<lparr>px = dx, py = dy\<rparr>, bounced))"

text \<open>Lines 137 to 159: the four corners of the zone and the particle bursts.\<close>

definition corners :: "real \<Rightarrow> real \<Rightarrow> point list" where
  "corners maxX maxY =
     [\<lparr>px = 0, py = 0\<rparr>, \<lparr>px = maxX, py = 0\<rparr>, \<lparr>px = 0, py = maxY\<rparr>, \<lparr>px = maxX, py = maxY\<rparr>]"

definition nearCorner :: "real \<Rightarrow> real \<Rightarrow> point \<Rightarrow> bool" where
  "nearCorner x y c =
     (\<bar>x - px c\<bar> \<le> CORNER_THRESHOLD \<and> \<bar>y - py c\<bar> \<le> CORNER_THRESHOLD)"

definition burst_at :: "containerSize \<Rightarrow> point \<Rightarrow> confetti" where
  "burst_at cs c =
     \<lparr>particleCount = 100, spread = 60,
      origin_x = js_div (px c + LOGO_WIDTH / 2) (width cs),
      origin_y = js_div (py c + LOGO_HEIGHT / 2) (height cs)\<rparr>"

definition animate_confetti :: "containerSize \<Rightarrow> real \<Rightarrow> real \<Rightarrow> real \<Rightarrow> real \<Rightarrow> confetti list" where
  "animate_confetti cs maxX maxY x y =
     map (burst_at cs) (filter (nearCorner x y) (corners maxX maxY))"

text \<open>Lines 165 to 193: the leading vertex, the targeted corner and the angle.\<close>

definition degrees :: "real \<Rightarrow> real" where
  "degrees a = (a * 180) / pi"

definition DEG8 :: real where
  "DEG8 = (8 * pi) / 180"

definition animate_debug :: "containerSize \<Rightarrow> real \<Rightarrow> real \<Rightarrow> real \<Rightarrow> real \<Rightarrow> diagnostic" where
  "animate_debug cs x y dx dy =
     (let (sourceLogo, targetScreen) =
            (if dx > 0 \<and> dy > 0 then
               (\<lparr>px = x + LOGO_WIDTH, py = y + LOGO_HEIGHT\<rparr>, \<lparr>px = width cs, py = height cs\<rparr>)
             else if dx > 0 \<and> dy < 0 then
               (\<lparr>px = x + LOGO_WIDTH, py = y\<rparr>, \<lparr>px = width cs, py = 0\<rparr>)
             else if dx < 0 \<and> dy > 0 then
               (\<lparr>px = x, py = y + LOGO_HEIGHT\<rparr>, \<lparr>px = 0, py = height cs\<rparr>)
             else
               (\<lparr>px = x, py = y\<rparr>, \<lparr>px = 0, py = 0\<rparr>));
          vx = px targetScreen - px sourceLogo;
          vy = py targetScreen - py sourceLogo;
          a = angleBetween dx dy vx vy
      in \<lparr>sourceLogo = sourceLogo, targetScreen = targetScreen,
          angle = a, aDeg = map_option degrees a,
          inCone = (case a of None \<Rightarrow> False | Some r \<Rightarrow> r < DEG8)\<rparr>)"

text \<open>
  One call of \<open>animate\<close>: \<open>cs\<close> is the measured container, \<open>now\<close> the value of
  the clock read when a rebound happened.
\<close>

definition animate :: "containerSize \<Rightarrow> real \<Rightarrow> sim \<Rightarrow> frame" where
  "animate cs now s =
     (let maxX = width cs - LOGO_WIDTH;
          maxY = height cs - LOGO_HEIGHT;
          (p, d, b) = animate_move maxX maxY (pos s) (dir s)
      in \<lparr>sim_after = \<lparr>pos = p, dir = d,
                        lastBounceTime = (if b then now else lastBounceTime s)\<rparr>,
          bounced = b,
          bursts = animate_confetti cs maxX maxY (px p) (py p),
          diag = animate_debug cs (px p) (py p) (px d) (py d)\<rparr>)"

text \<open>The states the running component goes through, whatever the container measures.\<close>

inductive reachable :: "sim \<Rightarrow> bool" where
  start: "reachable init_sim"
| tick: "reachable s \<Longrightarrow> reachable (sim_after (animate cs now s))"

subsection \<open>The angle with every operation rounded to binary64\<close>











section \<open>Properties\<close>

lemma LOGO_HEIGHT_val: "LOGO_HEIGHT = 2500 / 31"
  by (simp add: LOGO_HEIGHT_def LOGO_WIDTH_def LOGO_ASPECT_RATIO_def)

lemma animate_move_x:
  "px (fst (animate_move maxX maxY p d)) =
     (if px p + px d * SPEED \<le> 0 then 0
      else if px p + px d * SPEED \<ge> maxX then maxX else px p + px d * SPEED)"
  by (simp add: animate_move_def Let_def)

lemma animate_move_y:
  "py (fst (animate_move maxX maxY p d)) =
     (if py p + py d * SPEED \<le> 0 then 0
      else if py p + py d * SPEED \<ge> maxY then maxY else py p + py d * SPEED)"
  by (simp add: animate_move_def Let_def)

lemma animate_move_dx:
  "px (fst (snd (animate_move maxX maxY p d))) =
     (if px p + px d * SPEED \<le> 0 \<or> px p + px d * SPEED \<ge> maxX then - px d else px d)"
  by (simp add: animate_move_def Let_def)

lemma animate_move_dy:
  "py (fst (snd (animate_move maxX maxY p d))) =
     (if py p + py d * SPEED \<le> 0 \<or> py p + py d * SPEED \<ge> maxY then - py d else py d)"
  by (simp add: animate_move_def Let_def)

lemma animate_move_bounced:
  "snd (snd (animate_move maxX maxY p d)) =
     (px p + px d * SPEED \<le> 0 \<or> px p + px d * SPEED \<ge> maxX \<or>
      py p + py d * SPEED \<le> 0 \<or> py p + py d * SPEED \<ge> maxY)"
  by (simp add: animate_move_def Let_def)

lemma animate_pos:
  "pos (sim_after (animate cs now s)) =
     fst (animate_move (width cs - LOGO_WIDTH) (height cs - LOGO_HEIGHT) (pos s) (dir s))"
  by (simp add: animate_def Let_def case_prod_beta)

lemma animate_dir:
  "dir (sim_after (animate cs now s)) =
     fst (snd (animate_move (width cs - LOGO_WIDTH) (height cs - LOGO_HEIGHT) (pos s) (dir s)))"
  by (simp add: animate_def Let_def case_prod_beta)

lemma animate_bounced:
  "bounced (animate cs now s) =
     snd (snd (animate_move (width cs - LOGO_WIDTH) (height cs - LOGO_HEIGHT) (pos s) (dir s)))"
  by (simp add: animate_def Let_def case_prod_beta)

subsection \<open>The position stays inside the zone\<close>

text \<open>
  Claim C1. When the zone is not degenerate (\<open>maxX = width - LOGO_WIDTH \<ge> 0\<close> and
  \<open>maxY = height - LOGO_HEIGHT \<ge> 0\<close>), the position stored by one call of
  \<open>animate\<close> satisfies \<open>0 \<le> x \<le> maxX\<close> and \<open>0 \<le> y \<le> maxY\<close>, whatever the
  position and the direction were before the call.
\<close>

theorem C1_position_in_bounds:
  assumes "0 \<le> width cs - LOGO_WIDTH" and "0 \<le> height cs - LOGO_HEIGHT"
  shows "0 \<le> px (pos (sim_after (animate cs now s))) \<and>
         px (pos (sim_after (animate cs now s))) \<le> width cs - LOGO_WIDTH \<and>
         0 \<le> py (pos (sim_after (animate cs now s))) \<and>
         py (pos (sim_after (animate cs now s))) \<le> height cs - LOGO_HEIGHT"
  using assms by (simp add: animate_pos animate_move_x animate_move_y)

theorem C1_position_in_bounds_witness:
  "0 \<le> width \<lparr>width = 800, height = 600\<rparr> - LOGO_WIDTH \<and>
   0 \<le> height \<lparr>width = 800, height = 600\<rparr> - LOGO_HEIGHT \<and>
   pos (sim_after (animate \<lparr>width = 800, height = 600\<rparr> 0
      \<lparr>pos = \<lparr>px = 5000, py = - 30\<rparr>, dir = \<lparr>px = 7, py = - 2\<rparr>, lastBounceTime = 0\<rparr>))
     = \<lparr>px = 600, py = 0\<rparr> \<and>
   0 \<le> px (pos (sim_after (animate \<lparr>width = 800, height = 600\<rparr> 0
      \<lparr>pos = \<lparr>px = 5000, py = - 30\<rparr>, dir = \<lparr>px = 7, py = - 2\<rparr>, lastBounceTime = 0\<rparr>))) \<and>
   px (pos (sim_after (animate \<lparr>width = 800, height = 600\<rparr> 0
      \<lparr>pos = \<lparr>px = 5000, py = - 30\<rparr>, dir = \<lparr>px = 7, py = - 2\<rparr>, lastBounceTime = 0\<rparr>)))
     \<le> width \<lparr>width = 800, height = 600\<rparr> - LOGO_WIDTH"
proof -
  have w: "0 \<le> width \<lparr>width = 800, height = 600\<rparr> - LOGO_WIDTH"
    by (simp add: LOGO_WIDTH_def)
  have h: "0 \<le> height \<lparr>width = 800, height = 600\<rparr> - LOGO_HEIGHT"
    by (simp add: LOGO_HEIGHT_val)
  have p: "pos (sim_after (animate \<lparr>width = 800, height = 600\<rparr> 0
      \<lparr>pos = \<lparr>px = 5000, py = - 30\<rparr>, dir = \<lparr>px = 7, py = - 2\<rparr>, lastBounceTime = 0\<rparr>))
     = \<lparr>px = 600, py = 0\<rparr>"
    by (simp add: animate_def animate_move_def Let_def SPEED_def LOGO_WIDTH_def LOGO_HEIGHT_val)
  show ?thesis
    using w h p C1_position_in_bounds [OF w h, of 0
      "\<lparr>pos = \<lparr>px = 5000, py = - 30\<rparr>, dir = \<lparr>px = 7, py = - 2\<rparr>, lastBounceTime = 0\<rparr>"]
    by simp
qed

subsection \<open>A frame away from the edges\<close>

text \<open>
  Claim C5. From position \<open>(598, 2)\<close> with direction \<open>(1, -1)\<close>, in a zone with
  \<open>maxX = 600\<close> and \<open>maxY = 400\<close> and with the speed 0.75, one frame gives the
  position \<open>(598.75, 1.25)\<close>; there is no rebound on either axis and the direction
  is unchanged.
\<close>

theorem C5_scenario:
  "SPEED = 0.75 \<and>
   width \<lparr>width = 600 + LOGO_WIDTH, height = 400 + LOGO_HEIGHT\<rparr> - LOGO_WIDTH = 600 \<and>
   height \<lparr>width = 600 + LOGO_WIDTH, height = 400 + LOGO_HEIGHT\<rparr> - LOGO_HEIGHT = 400 \<and>
   sim_after (animate \<lparr>width = 600 + LOGO_WIDTH, height = 400 + LOGO_HEIGHT\<rparr> now
     \<lparr>pos = \<lparr>px = 598, py = 2\<rparr>, dir = \<lparr>px = 1, py = - 1\<rparr>, lastBounceTime = t\<rparr>)
     = \<lparr>pos = \<lparr>px = 598.75, py = 1.25\<rparr>, dir = \<lparr>px = 1, py = - 1\<rparr>, lastBounceTime = t\<rparr> \<and>
   bounced (animate \<lparr>width = 600 + LOGO_WIDTH, height = 400 + LOGO_HEIGHT\<rparr> now
     \<lparr>pos = \<lparr>px = 598, py = 2\<rparr>, dir = \<lparr>px = 1, py = - 1\<rparr>, lastBounceTime = t\<rparr>) = False"
  by (simp add: animate_def animate_move_def Let_def SPEED_def)

subsection \<open>Rebounds and the sign of the direction\<close>

text \<open>
  The direction starts at \<open>(1, 1)\<close> and is only ever multiplied by \<open>-1\<close>, so both of
  its components are \<open>1\<close> or \<open>-1\<close> in every state the component goes through.
\<close>

lemma reachable_dir:
  "reachable s \<Longrightarrow>
     (px (dir s) = 1 \<or> px (dir s) = - 1) \<and> (py (dir s) = 1 \<or> py (dir s) = - 1)"
proof (induction rule: reachable.induct)
  case start
  show ?case by (simp add: init_sim_def)
next
  case (tick s cs now)
  then show ?case
    by (auto simp add: animate_dir animate_move_dx animate_move_dy)
qed

lemma flip_x_nonzero:
  assumes "px (dir s) \<noteq> 0"
  shows "(sgn (px (dir (sim_after (animate cs now s)))) \<noteq> sgn (px (dir s))) =
         (px (pos s) + px (dir s) * SPEED \<le> 0 \<or>
          px (pos s) + px (dir s) * SPEED \<ge> width cs - LOGO_WIDTH)"
  using assms by (auto simp add: animate_dir animate_move_dx sgn_if)

lemma flip_y_nonzero:
  assumes "py (dir s) \<noteq> 0"
  shows "(sgn (py (dir (sim_after (animate cs now s)))) \<noteq> sgn (py (dir s))) =
         (py (pos s) + py (dir s) * SPEED \<le> 0 \<or>
          py (pos s) + py (dir s) * SPEED \<ge> height cs - LOGO_HEIGHT)"
  using assms by (auto simp add: animate_dir animate_move_dy sgn_if)

text \<open>
  The restriction to nonzero components matters: a zero component is multiplied by
  \<open>-1\<close> like any other and keeps its sign.
\<close>

lemma zero_component_keeps_sign:
  "px (dir s) = 0 \<Longrightarrow>
     sgn (px (dir (sim_after (animate cs now s)))) = sgn (px (dir s))"
  by (simp add: animate_dir animate_move_dx)

text \<open>
  Claim C2. In every frame of the running component, the x component of the
  direction changes sign exactly when the advanced x coordinate is \<open>\<le> 0\<close> or
  \<open>\<ge> maxX\<close>, and the y component exactly when the advanced y coordinate is \<open>\<le> 0\<close>
  or \<open>\<ge> maxY\<close>. Each axis is decided from its own coordinate only, and when both
  axes hit in the same frame both components are inverted.
\<close>

theorem C2_velocity_flips:
  assumes "reachable s"
  shows "((sgn (px (dir (sim_after (animate cs now s)))) \<noteq> sgn (px (dir s))) =
            (px (pos s) + px (dir s) * SPEED \<le> 0 \<or>
             px (pos s) + px (dir s) * SPEED \<ge> width cs - LOGO_WIDTH)) \<and>
         ((sgn (py (dir (sim_after (animate cs now s)))) \<noteq> sgn (py (dir s))) =
            (py (pos s) + py (dir s) * SPEED \<le> 0 \<or>
             py (pos s) + py (dir s) * SPEED \<ge> height cs - LOGO_HEIGHT)) \<and>
         ((px (pos s) + px (dir s) * SPEED \<le> 0 \<or>
           px (pos s) + px (dir s) * SPEED \<ge> width cs - LOGO_WIDTH) \<and>
          (py (pos s) + py (dir s) * SPEED \<le> 0 \<or>
           py (pos s) + py (dir s) * SPEED \<ge> height cs - LOGO_HEIGHT) \<longrightarrow>
          dir (sim_after (animate cs now s)) = \<lparr>px = - px (dir s), py = - py (dir s)\<rparr>)"
proof -
  from reachable_dir [OF assms] have nz: "px (dir s) \<noteq> 0" "py (dir s) \<noteq> 0"
    by auto
  have both: "(px (pos s) + px (dir s) * SPEED \<le> 0 \<or>
           px (pos s) + px (dir s) * SPEED \<ge> width cs - LOGO_WIDTH) \<and>
          (py (pos s) + py (dir s) * SPEED \<le> 0 \<or>
           py (pos s) + py (dir s) * SPEED \<ge> height cs - LOGO_HEIGHT) \<longrightarrow>
          dir (sim_after (animate cs now s)) = \<lparr>px = - px (dir s), py = - py (dir s)\<rparr>"
    by (rule impI, rule point.equality)
       (simp_all add: animate_dir animate_move_dx animate_move_dy)
  show ?thesis
    using flip_x_nonzero [OF nz(1)] flip_y_nonzero [OF nz(2)] both by blast
qed

theorem C2_velocity_flips_witness:
  "reachable init_sim \<and>
   dir (sim_after (animate \<lparr>width = 300, height = 200\<rparr> 0 init_sim)) = \<lparr>px = - 1, py = - 1\<rparr> \<and>
   sgn (px (dir (sim_after (animate \<lparr>width = 300, height = 200\<rparr> 0 init_sim))))
     \<noteq> sgn (px (dir init_sim)) \<and>
   px (pos init_sim) + px (dir init_sim) * SPEED \<ge> width \<lparr>width = 300, height = 200\<rparr> - LOGO_WIDTH \<and>
   sgn (py (dir (sim_after (animate \<lparr>width = 300, height = 200\<rparr> 0 init_sim))))
     \<noteq> sgn (py (dir init_sim)) \<and>
   py (pos init_sim) + py (dir init_sim) * SPEED \<ge> height \<lparr>width = 300, height = 200\<rparr> - LOGO_HEIGHT"
proof -
  have hx: "px (pos init_sim) + px (dir init_sim) * SPEED
              \<ge> width \<lparr>width = 300, height = 200\<rparr> - LOGO_WIDTH"
    by (simp add: init_sim_def SPEED_def LOGO_WIDTH_def)
  have hy: "py (pos init_sim) + py (dir init_sim) * SPEED
              \<ge> height \<lparr>width = 300, height = 200\<rparr> - LOGO_HEIGHT"
    by (simp add: init_sim_def SPEED_def LOGO_HEIGHT_val)
  have d: "\<lparr>px = - px (dir init_sim), py = - py (dir init_sim)\<rparr> = \<lparr>px = - 1, py = - 1\<rparr>"
    by (simp add: init_sim_def)
  show ?thesis
    using C2_velocity_flips [OF reachable.start, of "\<lparr>width = 300, height = 200\<rparr>" 0]
      reachable.start hx hy d
    by simp
qed

subsection \<open>Corners and particle bursts\<close>

lemma corners_coords:
  "c \<in> set (corners maxX maxY) \<Longrightarrow>
     (px c = 0 \<or> px c = maxX) \<and> (py c = 0 \<or> py c = maxY)"
  by (auto simp add: corners_def)

lemma animate_bursts:
  "bursts (animate cs now s) =
     animate_confetti cs (width cs - LOGO_WIDTH) (height cs - LOGO_HEIGHT)
       (px (pos (sim_after (animate cs now s)))) (py (pos (sim_after (animate cs now s))))"
  by (simp add: animate_def Let_def case_prod_beta)

lemma origin_fraction:
  assumes "0 < e" and "e \<le> w" and "c = 0 \<or> c = w - e"
  shows "0 \<le> (c + e / 2) / w \<and> (c + e / 2) / w \<le> (1::real)"
  using assms by (auto simp add: field_simps)

lemma LOGO_WIDTH_pos: "0 < LOGO_WIDTH"
  by (simp add: LOGO_WIDTH_def)

lemma LOGO_HEIGHT_pos: "0 < LOGO_HEIGHT"
  by (simp add: LOGO_HEIGHT_val)

text \<open>
  Claim C3. With the threshold 6 and a zone whose extents \<open>maxX\<close> and \<open>maxY\<close> both
  exceed 12, a position that is exactly one of the four corners of the zone is near
  that corner and near no other of the four.
\<close>

theorem C3_exactly_one_corner:
  assumes "maxX > 12" and "maxY > 12"
    and "c \<in> set (corners maxX maxY)" and "c' \<in> set (corners maxX maxY)"
  shows "CORNER_THRESHOLD = 6 \<and> nearCorner (px c) (py c) c' = (c' = c)"
  using assms by (auto simp add: corners_def nearCorner_def CORNER_THRESHOLD_def)

theorem C3_exactly_one_corner_witness:
  "(600::real) > 12 \<and> (400::real) > 12 \<and>
   \<lparr>px = 0, py = 0\<rparr> \<in> set (corners 600 400) \<and>
   \<lparr>px = 600, py = 0\<rparr> \<in> set (corners 600 400) \<and>
   nearCorner 0 0 \<lparr>px = 0, py = 0\<rparr> \<and>
   \<not> nearCorner 0 0 \<lparr>px = 600, py = 0\<rparr>"
proof -
  have a: "(600::real) > 12" and b: "(400::real) > 12" by simp_all
  have c0: "\<lparr>px = 0, py = 0\<rparr> \<in> set (corners 600 400)"
    and c1: "\<lparr>px = 600, py = 0\<rparr> \<in> set (corners 600 400)"
    by (simp_all add: corners_def)
  show ?thesis
    using a b c0 c1 C3_exactly_one_corner [OF a b c0 c0] C3_exactly_one_corner [OF a b c0 c1]
    by simp
qed

text \<open>
  Claim C4. Every burst fired by a frame comes from a corner \<open>c\<close> of the zone that the
  stored position is near, and its origin is \<open>(c.x + LOGO_WIDTH / 2) / width\<close> and
  \<open>(c.y + LOGO_HEIGHT / 2) / height\<close>. When the container is at least as wide and as
  high as the logo, both are fractions between 0 and 1.
\<close>

theorem C4_burst_origin:
  assumes "b \<in> set (bursts (animate cs now s))"
  shows "\<exists>c. c \<in> set (corners (width cs - LOGO_WIDTH) (height cs - LOGO_HEIGHT)) \<and>
           nearCorner (px (pos (sim_after (animate cs now s))))
                      (py (pos (sim_after (animate cs now s)))) c \<and>
           origin_x b = js_div (px c + LOGO_WIDTH / 2) (width cs) \<and>
           origin_y b = js_div (py c + LOGO_HEIGHT / 2) (height cs) \<and>
           (width cs \<ge> LOGO_WIDTH \<and> height cs \<ge> LOGO_HEIGHT \<longrightarrow>
              origin_x b = Some ((px c + LOGO_WIDTH / 2) / width cs) \<and>
              origin_y b = Some ((py c + LOGO_HEIGHT / 2) / height cs) \<and>
              0 \<le> (px c + LOGO_WIDTH / 2) / width cs \<and>
              (px c + LOGO_WIDTH / 2) / width cs \<le> 1 \<and>
              0 \<le> (py c + LOGO_HEIGHT / 2) / height cs \<and>
              (py c + LOGO_HEIGHT / 2) / height cs \<le> 1)"
proof -
  let ?maxX = "width cs - LOGO_WIDTH" and ?maxY = "height cs - LOGO_HEIGHT"
  let ?x = "px (pos (sim_after (animate cs now s)))"
  let ?y = "py (pos (sim_after (animate cs now s)))"
  from assms obtain c where c: "c \<in> set (corners ?maxX ?maxY)"
    and near: "nearCorner ?x ?y c" and b: "b = burst_at cs c"
    by (auto simp add: animate_bursts animate_confetti_def)
  have ox: "origin_x b = js_div (px c + LOGO_WIDTH / 2) (width cs)"
    and oy: "origin_y b = js_div (py c + LOGO_HEIGHT / 2) (height cs)"
    by (simp_all add: b burst_at_def)
  have big: "origin_x b = Some ((px c + LOGO_WIDTH / 2) / width cs) \<and>
             origin_y b = Some ((py c + LOGO_HEIGHT / 2) / height cs) \<and>
             0 \<le> (px c + LOGO_WIDTH / 2) / width cs \<and>
             (px c + LOGO_WIDTH / 2) / width cs \<le> 1 \<and>
             0 \<le> (py c + LOGO_HEIGHT / 2) / height cs \<and>
             (py c + LOGO_HEIGHT / 2) / height cs \<le> 1"
    if w: "width cs \<ge> LOGO_WIDTH" and h: "height cs \<ge> LOGO_HEIGHT"
  proof -
    from w LOGO_WIDTH_pos have wn: "width cs \<noteq> 0" by simp
    from h LOGO_HEIGHT_pos have hn: "height cs \<noteq> 0" by simp
    from corners_coords [OF c]
    have cx: "px c = 0 \<or> px c = width cs - LOGO_WIDTH"
      and cy: "py c = 0 \<or> py c = height cs - LOGO_HEIGHT" by simp_all
    show ?thesis
      using origin_fraction [OF LOGO_WIDTH_pos w cx] origin_fraction [OF LOGO_HEIGHT_pos h cy]
        wn hn
      by (simp add: ox oy js_div_def)
  qed
  show ?thesis
    using c near ox oy big by blast
qed

theorem C4_burst_origin_witness:
  "bursts (animate \<lparr>width = 800, height = 600\<rparr> 0
      \<lparr>pos = \<lparr>px = 1, py = 1\<rparr>, dir = \<lparr>px = - 1, py = - 1\<rparr>, lastBounceTime = 0\<rparr>)
     = [\<lparr>particleCount = 100, spread = 60, origin_x = Some (1 / 8), origin_y = Some (25 / 372)\<rparr>] \<and>
   width \<lparr>width = 800, height = 600\<rparr> \<ge> LOGO_WIDTH \<and>
   height \<lparr>width = 800, height = 600\<rparr> \<ge> LOGO_HEIGHT \<and>
   (\<exists>c. c \<in> set (corners (width \<lparr>width = 800, height = 600\<rparr> - LOGO_WIDTH)
                           (height \<lparr>width = 800, height = 600\<rparr> - LOGO_HEIGHT)) \<and>
        (px c + LOGO_WIDTH / 2) / 800 = 1 / 8 \<and>
        (py c + LOGO_HEIGHT / 2) / 600 = 25 / 372 \<and>
        0 \<le> (px c + LOGO_WIDTH / 2) / 800 \<and> (px c + LOGO_WIDTH / 2) / 800 \<le> 1 \<and>
        0 \<le> (py c + LOGO_HEIGHT / 2) / 600 \<and> (py c + LOGO_HEIGHT / 2) / 600 \<le> 1)"
proof -
  let ?cs = "\<lparr>width = 800, height = 600\<rparr>"
  let ?s = "\<lparr>pos = \<lparr>px = 1, py = 1\<rparr>, dir = \<lparr>px = - 1, py = - 1\<rparr>, lastBounceTime = 0\<rparr>"
  let ?b = "\<lparr>particleCount = 100, spread = 60, origin_x = Some (1 / 8), origin_y = Some (25 / 372)\<rparr>"
  have e: "bursts (animate ?cs 0 ?s) = [?b]"
    by (simp add: animate_def animate_move_def animate_confetti_def corners_def nearCorner_def
        burst_at_def js_div_def Let_def SPEED_def LOGO_WIDTH_def LOGO_HEIGHT_val
        CORNER_THRESHOLD_def)
  then have m: "?b \<in> set (bursts (animate ?cs 0 ?s))" by simp
  have w: "width ?cs \<ge> LOGO_WIDTH" by (simp add: LOGO_WIDTH_def)
  have h: "height ?cs \<ge> LOGO_HEIGHT" by (simp add: LOGO_HEIGHT_val)
  from C4_burst_origin [OF m] obtain c where
    c: "c \<in> set (corners (width ?cs - LOGO_WIDTH) (height ?cs - LOGO_HEIGHT))"
    and imp: "width ?cs \<ge> LOGO_WIDTH \<and> height ?cs \<ge> LOGO_HEIGHT \<longrightarrow>
              origin_x ?b = Some ((px c + LOGO_WIDTH / 2) / width ?cs) \<and>
              origin_y ?b = Some ((py c + LOGO_HEIGHT / 2) / height ?cs) \<and>
              0 \<le> (px c + LOGO_WIDTH / 2) / width ?cs \<and>
              (px c + LOGO_WIDTH / 2) / width ?cs \<le> 1 \<and>
              0 \<le> (py c + LOGO_HEIGHT / 2) / height ?cs \<and>
              (py c + LOGO_HEIGHT / 2) / height ?cs \<le> 1"
    by blast
  from imp w h have
    "(px c + LOGO_WIDTH / 2) / 800 = 1 / 8 \<and>
     (py c + LOGO_HEIGHT / 2) / 600 = 25 / 372 \<and>
     0 \<le> (px c + LOGO_WIDTH / 2) / 800 \<and> (px c + LOGO_WIDTH / 2) / 800 \<le> 1 \<and>
     0 \<le> (py c + LOGO_HEIGHT / 2) / 600 \<and> (py c + LOGO_HEIGHT / 2) / 600 \<le> 1"
    by simp
  with c have "\<exists>c. c \<in> set (corners (width ?cs - LOGO_WIDTH) (height ?cs - LOGO_HEIGHT)) \<and>
        (px c + LOGO_WIDTH / 2) / 800 = 1 / 8 \<and>
        (py c + LOGO_HEIGHT / 2) / 600 = 25 / 372 \<and>
        0 \<le> (px c + LOGO_WIDTH / 2) / 800 \<and> (px c + LOGO_WIDTH / 2) / 800 \<le> 1 \<and>
        0 \<le> (py c + LOGO_HEIGHT / 2) / 600 \<and> (py c + LOGO_HEIGHT / 2) / 600 \<le> 1"
    by blast
  with e w h show ?thesis by blast
qed

subsection \<open>The angle between two vectors\<close>

lemma length_vec_zero_iff: "length_vec p q = 0 \<longleftrightarrow> p = 0 \<and> q = 0"
  by (simp add: length_vec_def Math_hypot_def add_nonneg_eq_0_iff)

lemma normalize_vec_zero: "length_vec p q = 0 \<Longrightarrow> normalize_vec p q = Some \<lparr>px = 0, py = 0\<rparr>"
  by (simp add: normalize_vec_def Let_def)

lemma normalize_vec_nonzero:
  "length_vec p q \<noteq> 0 \<Longrightarrow>
     normalize_vec p q = Some \<lparr>px = p / length_vec p q, py = q / length_vec p q\<rparr>"
  by (simp add: normalize_vec_def js_div_def Let_def)

lemma normalize_vec_total: "\<exists>n. normalize_vec p q = Some n"
  by (cases "length_vec p q = 0") (simp_all add: normalize_vec_zero normalize_vec_nonzero)

lemma clamp_unit: "- 1 \<le> clamp d (- 1) 1 \<and> clamp d (- 1) 1 \<le> 1"
  by (simp add: clamp_def)

lemma Math_acos_clamp: "Math_acos (clamp d (- 1) 1) = Some (arccos (clamp d (- 1) 1))"
  using clamp_unit [of d] by (simp add: Math_acos_def)

lemma angleBetween_Some:
  assumes "normalize_vec ax ay = Some a" and "normalize_vec bx by = Some b"
  shows "angleBetween ax ay bx by =
           Some (arccos (clamp (dot (px a) (py a) (px b) (py b)) (- 1) 1))"
  using assms by (simp add: angleBetween_def Math_acos_clamp)

lemma dot_commute: "dot ax ay bx by = dot bx by ax ay"
  by (simp add: dot_def mult.commute)

lemma degrees_half_pi: "degrees (pi / 2) = 90"
  by (simp add: degrees_def)

lemma angleBetween_zero_left: "angleBetween 0 0 vx vy = Some (pi / 2)"
proof -
  obtain b where b: "normalize_vec vx vy = Some b"
    using normalize_vec_total by blast
  have a: "normalize_vec 0 0 = Some \<lparr>px = 0, py = 0\<rparr>"
    by (simp add: normalize_vec_zero length_vec_zero_iff)
  show ?thesis
    by (simp add: angleBetween_Some [OF a b] dot_def clamp_def)
qed

lemma angleBetween_commute: "angleBetween ax ay bx by = angleBetween bx by ax ay"
proof -
  obtain a b where a: "normalize_vec ax ay = Some a" and b: "normalize_vec bx by = Some b"
    using normalize_vec_total by blast
  show ?thesis
    by (simp add: angleBetween_Some [OF a b] angleBetween_Some [OF b a] dot_commute [of "px a"])
qed

lemma angleBetween_range:
  "\<exists>r. angleBetween ax ay bx by = Some r \<and> 0 \<le> r \<and> r \<le> pi"
proof -
  obtain a b where a: "normalize_vec ax ay = Some a" and b: "normalize_vec bx by = Some b"
    using normalize_vec_total by blast
  let ?d = "clamp (dot (px a) (py a) (px b) (py b)) (- 1) 1"
  from clamp_unit [of "dot (px a) (py a) (px b) (py b)"]
  have "0 \<le> arccos ?d" and "arccos ?d \<le> pi"
    by (simp_all add: arccos_lbound arccos_ubound)
  then show ?thesis
    by (simp add: angleBetween_Some [OF a b])
qed

subsection \<open>The debug diagnostic\<close>

lemma animate_diag:
  "diag (animate cs now s) =
     animate_debug cs (px (pos (sim_after (animate cs now s))))
       (py (pos (sim_after (animate cs now s))))
       (px (dir (sim_after (animate cs now s))))
       (py (dir (sim_after (animate cs now s))))"
  by (simp add: animate_def Let_def case_prod_beta)

lemma animate_debug_angle:
  "angle (animate_debug cs x y dx dy) =
     angleBetween dx dy
       (px (targetScreen (animate_debug cs x y dx dy)) - px (sourceLogo (animate_debug cs x y dx dy)))
       (py (targetScreen (animate_debug cs x y dx dy)) - py (sourceLogo (animate_debug cs x y dx dy)))"
  by (simp add: animate_debug_def Let_def case_prod_beta)

lemma animate_debug_aDeg:
  "aDeg (animate_debug cs x y dx dy) = map_option degrees (angle (animate_debug cs x y dx dy))"
  by (simp add: animate_debug_def Let_def case_prod_beta)

text \<open>
  Claim C6. The diagnostic of a frame is computed from the position and direction
  stored by that frame. From the signs of the direction it picks the leading vertex
  of the logo's box and the targeted corner of the container: \<open>(+, +)\<close> gives the
  bottom-right vertex \<open>(x + LOGO_WIDTH, y + LOGO_HEIGHT)\<close> and the corner
  \<open>(width, height)\<close>; \<open>(+, -)\<close> the top-right vertex and corner; \<open>(-, +)\<close> the
  bottom-left vertex and corner; \<open>(-, -)\<close>, and every combination with a zero
  component, the top-left vertex \<open>(x, y)\<close> and the corner \<open>(0, 0)\<close>.
\<close>

theorem C6_leading_vertex:
  "diag (animate cs now s) =
     animate_debug cs (px (pos (sim_after (animate cs now s))))
       (py (pos (sim_after (animate cs now s))))
       (px (dir (sim_after (animate cs now s))))
       (py (dir (sim_after (animate cs now s)))) \<and>
   (dx > 0 \<and> dy > 0 \<longrightarrow>
      sourceLogo (animate_debug cs x y dx dy) = \<lparr>px = x + LOGO_WIDTH, py = y + LOGO_HEIGHT\<rparr> \<and>
      targetScreen (animate_debug cs x y dx dy) = \<lparr>px = width cs, py = height cs\<rparr>) \<and>
   (dx > 0 \<and> dy < 0 \<longrightarrow>
      sourceLogo (animate_debug cs x y dx dy) = \<lparr>px = x + LOGO_WIDTH, py = y\<rparr> \<and>
      targetScreen (animate_debug cs x y dx dy) = \<lparr>px = width cs, py = 0\<rparr>) \<and>
   (dx < 0 \<and> dy > 0 \<longrightarrow>
      sourceLogo (animate_debug cs x y dx dy) = \<lparr>px = x, py = y + LOGO_HEIGHT\<rparr> \<and>
      targetScreen (animate_debug cs x y dx dy) = \<lparr>px = 0, py = height cs\<rparr>) \<and>
   ((dx < 0 \<and> dy < 0) \<or> dx = 0 \<or> dy = 0 \<longrightarrow>
      sourceLogo (animate_debug cs x y dx dy) = \<lparr>px = x, py = y\<rparr> \<and>
      targetScreen (animate_debug cs x y dx dy) = \<lparr>px = 0, py = 0\<rparr>)"
  by (auto simp add: animate_diag animate_debug_def Let_def)

theorem C6_leading_vertex_witness:
  "sourceLogo (animate_debug \<lparr>width = 800, height = 600\<rparr> 10 20 1 1)
     = \<lparr>px = 10 + LOGO_WIDTH, py = 20 + LOGO_HEIGHT\<rparr> \<and>
   targetScreen (animate_debug \<lparr>width = 800, height = 600\<rparr> 10 20 1 1) = \<lparr>px = 800, py = 600\<rparr> \<and>
   sourceLogo (animate_debug \<lparr>width = 800, height = 600\<rparr> 10 20 1 (- 1))
     = \<lparr>px = 10 + LOGO_WIDTH, py = 20\<rparr> \<and>
   targetScreen (animate_debug \<lparr>width = 800, height = 600\<rparr> 10 20 1 (- 1)) = \<lparr>px = 800, py = 0\<rparr> \<and>
   sourceLogo (animate_debug \<lparr>width = 800, height = 600\<rparr> 10 20 (- 1) 1)
     = \<lparr>px = 10, py = 20 + LOGO_HEIGHT\<rparr> \<and>
   targetScreen (animate_debug \<lparr>width = 800, height = 600\<rparr> 10 20 (- 1) 1) = \<lparr>px = 0, py = 600\<rparr> \<and>
   sourceLogo (animate_debug \<lparr>width = 800, height = 600\<rparr> 10 20 (- 1) (- 1)) = \<lparr>px = 10, py = 20\<rparr> \<and>
   targetScreen (animate_debug \<lparr>width = 800, height = 600\<rparr> 10 20 (- 1) (- 1)) = \<lparr>px = 0, py = 0\<rparr> \<and>
   sourceLogo (animate_debug \<lparr>width = 800, height = 600\<rparr> 10 20 0 1) = \<lparr>px = 10, py = 20\<rparr> \<and>
   targetScreen (animate_debug \<lparr>width = 800, height = 600\<rparr> 10 20 0 1) = \<lparr>px = 0, py = 0\<rparr>"
  using C6_leading_vertex [of "\<lparr>width = 800, height = 600\<rparr>" 0 init_sim 1 1 10 20]
    C6_leading_vertex [of "\<lparr>width = 800, height = 600\<rparr>" 0 init_sim 1 "- 1" 10 20]
    C6_leading_vertex [of "\<lparr>width = 800, height = 600\<rparr>" 0 init_sim "- 1" 1 10 20]
    C6_leading_vertex [of "\<lparr>width = 800, height = 600\<rparr>" 0 init_sim "- 1" "- 1" 10 20]
    C6_leading_vertex [of "\<lparr>width = 800, height = 600\<rparr>" 0 init_sim 0 1 10 20]
  by simp

subsection \<open>Values of the angle\<close>

lemma length_vec_1_1: "length_vec 1 1 = sqrt 2"
  by (simp add: length_vec_def Math_hypot_def)

lemma normalize_vec_1_1: "normalize_vec 1 1 = Some \<lparr>px = 1 / sqrt 2, py = 1 / sqrt 2\<rparr>"
  using normalize_vec_nonzero [of 1 1] by (simp add: length_vec_1_1)



text \<open>
  In exact arithmetic the normalised vector of \<open>(1, 1)\<close> has length exactly 1 and
  the angle of \<open>(1, 1)\<close> with itself is exactly 0; the rounded computation below
  does not reach either.
\<close>

lemma angleBetween_1_1_1_1: "angleBetween 1 1 1 1 = Some 0"
proof -
  have "dot (1 / sqrt 2) (1 / sqrt 2) (1 / sqrt 2) (1 / sqrt 2) = 1"
    by (simp add: dot_def)
  then show ?thesis
    by (simp add: angleBetween_Some [OF normalize_vec_1_1 normalize_vec_1_1] clamp_def)
qed


text \<open>
  Claim C8. The angle is defined for every pair of vectors. Normalising never
  divides by zero: a vector of length zero gives the zero vector, any other vector
  is divided by its nonzero length. The value handed to the inverse cosine is the
  clamped dot product, which lies in \<open>[-1, 1]\<close>, so the inverse cosine is always
  inside its domain.
\<close>

theorem C8_angle_defined:
  "(\<exists>a b. normalize_vec ax ay = Some a \<and> normalize_vec bx by = Some b \<and>
          angleBetween ax ay bx by = Math_acos (clamp (dot (px a) (py a) (px b) (py b)) (- 1) 1)) \<and>
   (\<exists>r. angleBetween ax ay bx by = Some r) \<and>
   (length_vec p q = 0 \<longrightarrow> normalize_vec p q = Some \<lparr>px = 0, py = 0\<rparr>) \<and>
   (length_vec p q \<noteq> 0 \<longrightarrow>
      normalize_vec p q = Some \<lparr>px = p / length_vec p q, py = q / length_vec p q\<rparr>) \<and>
   - 1 \<le> clamp d (- 1) 1 \<and> clamp d (- 1) 1 \<le> 1 \<and>
   Math_acos (clamp d (- 1) 1) \<noteq> None"
proof -
  obtain a b where a: "normalize_vec ax ay = Some a" and b: "normalize_vec bx by = Some b"
    using normalize_vec_total by blast
  have "angleBetween ax ay bx by = Math_acos (clamp (dot (px a) (py a) (px b) (py b)) (- 1) 1)"
    by (simp add: angleBetween_Some [OF a b] Math_acos_clamp)
  with a b have first: "\<exists>a b. normalize_vec ax ay = Some a \<and> normalize_vec bx by = Some b \<and>
          angleBetween ax ay bx by = Math_acos (clamp (dot (px a) (py a) (px b) (py b)) (- 1) 1)"
    by blast
  have second: "\<exists>r. angleBetween ax ay bx by = Some r"
    by (simp add: angleBetween_Some [OF a b])
  show ?thesis
    using first second clamp_unit [of d]
    by (simp add: normalize_vec_zero normalize_vec_nonzero Math_acos_clamp)
qed

theorem C8_angle_defined_witness:
  "length_vec 0 0 = 0 \<and> normalize_vec 0 0 = Some \<lparr>px = 0, py = 0\<rparr> \<and>
   length_vec 3 4 \<noteq> 0 \<and> normalize_vec 3 4 = Some \<lparr>px = 3 / 5, py = 4 / 5\<rparr> \<and>
   (\<exists>r. angleBetween 0 0 0 0 = Some r) \<and>
   clamp 2 (- 1) 1 = 1 \<and> Math_acos (clamp 2 (- 1) 1) = Some 0"
proof -
  have l0: "length_vec 0 0 = 0"
    by (simp add: length_vec_def Math_hypot_def)
  have "sqrt 25 = sqrt (5 * 5)" by simp
  then have "sqrt 25 = 5" by (simp only: real_sqrt_mult_self) simp
  then have l5: "length_vec 3 4 = 5"
    by (simp add: length_vec_def Math_hypot_def)
  show ?thesis
    using C8_angle_defined [of 0 0 0 0 0 0 2] C8_angle_defined [of 0 0 0 0 3 4 2] l0 l5
    by (simp add: clamp_def Math_acos_def)
qed

text \<open>
  Claim C9. The angle does not depend on the order of the two vectors, and it always
  lies between 0 and \<open>\<pi>\<close> radians, that is between 0 and 180 degrees.
\<close>

theorem C9_angle_symmetric_bounded:
  "angleBetween ax ay bx by = angleBetween bx by ax ay \<and>
   (\<exists>r. angleBetween ax ay bx by = Some r \<and> 0 \<le> r \<and> r \<le> pi \<and>
        0 \<le> degrees r \<and> degrees r \<le> 180)"
proof -
  from angleBetween_range [of ax ay bx "by"]
  obtain r where r: "angleBetween ax ay bx by = Some r" "0 \<le> r" "r \<le> pi"
    by blast
  have "0 \<le> degrees r" and "degrees r \<le> 180"
    using r(2,3) by (simp_all add: degrees_def field_simps)
  with r angleBetween_commute [of ax ay bx "by"] show ?thesis
    by simp
qed

text \<open>
  Claim C10. The angle between the zero vector and any vector, in either order, is
  \<open>\<pi> / 2\<close> radians, that is 90 degrees. In particular a frame whose leading vertex
  coincides with the targeted corner reports 90 degrees.
\<close>

theorem C10_zero_vector_right_angle:
  "angleBetween 0 0 vx vy = Some (pi / 2) \<and>
   angleBetween vx vy 0 0 = Some (pi / 2) \<and>
   degrees (pi / 2) = 90 \<and>
   (sourceLogo (diag (animate cs now s)) = targetScreen (diag (animate cs now s)) \<longrightarrow>
      angle (diag (animate cs now s)) = Some (pi / 2) \<and>
      aDeg (diag (animate cs now s)) = Some 90)"
proof -
  have l: "angleBetween 0 0 vx vy = Some (pi / 2)"
    by (rule angleBetween_zero_left)
  have r: "angleBetween vx vy 0 0 = Some (pi / 2)"
    using angleBetween_commute [of vx vy 0 0] by (simp add: angleBetween_zero_left)
  have d: "angle (diag (animate cs now s)) = Some (pi / 2) \<and>
           aDeg (diag (animate cs now s)) = Some 90"
    if eq: "sourceLogo (diag (animate cs now s)) = targetScreen (diag (animate cs now s))"
  proof -
    let ?g = "animate_debug cs (px (pos (sim_after (animate cs now s))))
       (py (pos (sim_after (animate cs now s))))
       (px (dir (sim_after (animate cs now s))))
       (py (dir (sim_after (animate cs now s))))"
    from eq have e: "sourceLogo ?g = targetScreen ?g"
      by (simp add: animate_diag)
    have "angle ?g = angleBetween (px (dir (sim_after (animate cs now s))))
       (py (dir (sim_after (animate cs now s)))) 0 0"
      by (simp add: animate_debug_angle [of cs] e)
    also have "\<dots> = Some (pi / 2)"
      using angleBetween_commute [of _ _ 0 0] by (simp add: angleBetween_zero_left)
    finally have a: "angle ?g = Some (pi / 2)" .
    then have "aDeg ?g = Some 90"
      by (simp add: animate_debug_aDeg degrees_half_pi)
    with a show ?thesis by (simp add: animate_diag)
  qed
  show ?thesis
    using l r d by (simp add: degrees_half_pi)
qed

theorem C10_zero_vector_right_angle_witness:
  "sourceLogo (diag (animate \<lparr>width = 800, height = 600\<rparr> 0
      \<lparr>pos = \<lparr>px = 700, py = 580\<rparr>, dir = \<lparr>px = - 1, py = - 1\<rparr>, lastBounceTime = 0\<rparr>))
     = \<lparr>px = 800, py = 600\<rparr> \<and>
   targetScreen (diag (animate \<lparr>width = 800, height = 600\<rparr> 0
      \<lparr>pos = \<lparr>px = 700, py = 580\<rparr>, dir = \<lparr>px = - 1, py = - 1\<rparr>, lastBounceTime = 0\<rparr>))
     = \<lparr>px = 800, py = 600\<rparr> \<and>
   aDeg (diag (animate \<lparr>width = 800, height = 600\<rparr> 0
      \<lparr>pos = \<lparr>px = 700, py = 580\<rparr>, dir = \<lparr>px = - 1, py = - 1\<rparr>, lastBounceTime = 0\<rparr>))
     = Some 90"
proof -
  let ?f = "animate \<lparr>width = 800, height = 600\<rparr> 0
      \<lparr>pos = \<lparr>px = 700, py = 580\<rparr>, dir = \<lparr>px = - 1, py = - 1\<rparr>, lastBounceTime = 0\<rparr>"
  have p: "pos (sim_after ?f) = \<lparr>px = 600, py = 600 - LOGO_HEIGHT\<rparr>"
    by (simp add: animate_pos animate_move_def Let_def SPEED_def LOGO_WIDTH_def LOGO_HEIGHT_val)
  have d: "dir (sim_after ?f) = \<lparr>px = 1, py = 1\<rparr>"
    by (simp add: animate_dir animate_move_def Let_def SPEED_def LOGO_WIDTH_def LOGO_HEIGHT_val)
  have s: "sourceLogo (diag ?f) = \<lparr>px = 800, py = 600\<rparr>"
    unfolding animate_diag p d by (simp add: animate_debug_def Let_def LOGO_WIDTH_def)
  have t: "targetScreen (diag ?f) = \<lparr>px = 800, py = 600\<rparr>"
    unfolding animate_diag p d by (simp add: animate_debug_def Let_def)
  show ?thesis
    using s t C10_zero_vector_right_angle [of 0 0 "\<lparr>width = 800, height = 600\<rparr>" 0
      "\<lparr>pos = \<lparr>px = 700, py = 580\<rparr>, dir = \<lparr>px = - 1, py = - 1\<rparr>, lastBounceTime = 0\<rparr>"]
    by simp
qed

subsection \<open>The angle in binary64 arithmetic\<close>

































end
